theory Spec2Isabelle
  imports Complex_Main
begin

section \<open>Trail analytics (GoogleMapsService.calculateTrailStats)\<close>

text \<open>
  JavaScript numbers are modelled as real numbers: the arithmetic of the source is read
  exactly, without rounding, overflow or NaN. This is an idealisation of the doubles of the
  source: an equality proved below holds of the code up to rounding. In exact arithmetic
  the haversine term \<open>a\<close> of calculateHaversineDistance lies between 0 and 1, while in
  doubles rounding can push it above 1 for nearly antipodal points, where
  \<open>Math.sqrt(1 - a)\<close> and with it the returned distance is NaN; nothing below relies on
  \<open>a\<close> staying in that range. A \<open>timestamp\<close> is the instant, in
  milliseconds since the epoch, that \<open>new Date(timestamp).getTime()\<close> yields for the
  string of the source. Optional fields (\<open>altitude?\<close>, \<open>address?\<close>) are options.
\<close>

record position =
  tracker_id :: string
  timestamp :: int
  latitude :: real
  longitude :: real
  speed :: real
  accuracy :: real
  altitude :: "real option"
  sensor_used :: string
  pos_status :: real
  address :: "string option"

record lat_lng =
  lat :: real
  lng :: real

record elevation_point =
  elevation :: real
  location :: lat_lng
  resolution :: real

record trail_stats =
  distance :: real
  duration :: real
  avgSpeed :: real
  elevationGain :: real
  elevationLoss :: real
  avgGrade :: real

text \<open>\<open>Math.atan2(y, x)\<close>: the angle of the point \<open>(x, y)\<close>, in \<open>(-pi, pi]\<close>.\<close>

definition atan2 :: "real \<Rightarrow> real \<Rightarrow> real" where
  "atan2 y x =
     (if 0 < x then arctan (y / x)
      else if x < 0 then (if 0 \<le> y then arctan (y / x) + pi else arctan (y / x) - pi)
      else if 0 < y then pi / 2
      else if y < 0 then - (pi / 2)
      else 0)"

definition toRadians :: "real \<Rightarrow> real" where
  "toRadians degrees = degrees * (pi / 180)"

definition calculateHaversineDistance :: "real \<Rightarrow> real \<Rightarrow> real \<Rightarrow> real \<Rightarrow> real" where
  "calculateHaversineDistance lat1 lng1 lat2 lng2 =
     (let R = 6371000;
          dLat = toRadians (lat2 - lat1);
          dLng = toRadians (lng2 - lng1);
          a = sin (dLat / 2) * sin (dLat / 2) +
              cos (toRadians lat1) * cos (toRadians lat2) *
              sin (dLng / 2) * sin (dLng / 2);
          c = 2 * atan2 (sqrt a) (sqrt (1 - a))
      in R * c)"

text \<open>
  The first loop of calculateTrailStats, \<open>for (let i = 1; i < positions.length; i++)\<close>,
  with its accumulator \<open>totalDistance\<close>.
\<close>

function distanceLoop :: "position list \<Rightarrow> nat \<Rightarrow> real \<Rightarrow> real" where
  "distanceLoop positions i totalDistance =
     (if i < length positions
      then distanceLoop positions (i + 1)
             (totalDistance +
              calculateHaversineDistance
                (latitude (positions ! (i - 1))) (longitude (positions ! (i - 1)))
                (latitude (positions ! i)) (longitude (positions ! i)))
      else totalDistance)"
  by pat_completeness auto
termination
  by (relation "measure (\<lambda>(positions, i, totalDistance). length positions - i)") auto

text \<open>
  The second loop, over the elevation samples, with its two accumulators
  \<open>(elevationGain, elevationLoss)\<close>.
\<close>

function elevationLoop :: "elevation_point list \<Rightarrow> nat \<Rightarrow> real \<times> real \<Rightarrow> real \<times> real" where
  "elevationLoop elevations i (gain, loss) =
     (if i < length elevations
      then (let elevDiff = elevation (elevations ! i) - elevation (elevations ! (i - 1))
            in if 0 < elevDiff
               then elevationLoop elevations (i + 1) (gain + elevDiff, loss)
               else elevationLoop elevations (i + 1) (gain, loss + \<bar>elevDiff\<bar>))
      else (gain, loss))"
  by pat_completeness auto
termination
  by (relation "measure (\<lambda>(elevations, i, acc). length elevations - i)") auto

definition calculateTrailStats :: "position list \<Rightarrow> elevation_point list option \<Rightarrow> trail_stats" where
  "calculateTrailStats positions elevations =
     (if length positions < 2
      then \<lparr>distance = 0, duration = 0, avgSpeed = 0,
            elevationGain = 0, elevationLoss = 0, avgGrade = 0\<rparr>
      else
        (let totalDistance = distanceLoop positions 1 0;
             startTime = timestamp (positions ! 0);
             endTime = timestamp (positions ! (length positions - 1));
             duration = real_of_int (endTime - startTime) / 1000;
             avgSpeed = (if 0 < duration then totalDistance / duration else 0);
             (gain, loss) =
               (case elevations of
                  None \<Rightarrow> (0, 0)
                | Some es \<Rightarrow> if 1 < length es then elevationLoop es 1 (0, 0) else (0, 0));
             avgGrade = (if 0 < totalDistance then ((gain - loss) / totalDistance) * 100 else 0)
         in \<lparr>distance = totalDistance, duration = duration, avgSpeed = avgSpeed,
             elevationGain = gain, elevationLoss = loss, avgGrade = avgGrade\<rparr>))"

subsection \<open>The specification's reading of the elevation figures\<close>

text \<open>
  The deltas between consecutive elevation samples, the sum of the positive ones and the
  sum of the absolute values of the negative ones.
\<close>

definition elevationDeltas :: "elevation_point list \<Rightarrow> real list" where
  "elevationDeltas es = map (\<lambda>i. elevation (es ! i) - elevation (es ! (i - 1))) [1..<length es]"

definition positiveDeltaSum :: "real list \<Rightarrow> real" where
  "positiveDeltaSum ds = sum_list (map (\<lambda>d. if 0 < d then d else 0) ds)"

definition negativeDeltaSum :: "real list \<Rightarrow> real" where
  "negativeDeltaSum ds = sum_list (map (\<lambda>d. if d < 0 then \<bar>d\<bar> else 0) ds)"

text \<open>Shifting a position by a fixed offset in latitude and in longitude.\<close>

definition shiftPosition :: "real \<Rightarrow> real \<Rightarrow> position \<Rightarrow> position" where
  "shiftPosition dLat dLng p = p\<lparr>latitude := latitude p + dLat, longitude := longitude p + dLng\<rparr>"

text \<open>Sample data on which the theorems below are exercised.\<close>

definition positionAt :: "real \<Rightarrow> real \<Rightarrow> int \<Rightarrow> position" where
  "positionAt la lo t =
     \<lparr>tracker_id = ''T1'', timestamp = t, latitude = la, longitude = lo, speed = 0,
      accuracy = 0, altitude = None, sensor_used = ''GPS'', pos_status = 0, address = None\<rparr>"

definition elevationSample :: "real \<Rightarrow> elevation_point" where
  "elevationSample h = \<lparr>elevation = h, location = \<lparr>lat = 0, lng = 0\<rparr>, resolution = 0\<rparr>"

section \<open>The Tractive API client (TractiveService)\<close>

subsection \<open>Requests, replies and payloads\<close>

datatype http_method = GET | POST

text \<open>
  A query parameter is a text or a date; \<open>DateParam ms\<close> stands for the rendering
  \<open>toISOString()\<close> of the instant \<open>ms\<close> milliseconds after the epoch.
\<close>

datatype param = TextParam string | DateParam int

datatype payload = NoPayload | Credentials string string | LiveTracking bool

record http_request =
  http_method :: http_method
  url :: string
  params :: "(string \<times> param) list"
  payload :: payload
  authorization :: "string option"

text \<open>
  An element of an array payload is a JSON object, read here through the members the
  client accesses; a member that the object lacks is \<open>undefined\<close>, here \<open>None\<close>. The
  members are those of a position sample (\<open>time\<close>, \<open>lat\<close>, \<open>lng\<close>, \<open>speed\<close>,
  \<open>pos_uncertainty\<close>, \<open>altitude\<close>, \<open>sensor_used\<close>, \<open>pos_status\<close>), of a tracker
  (\<open>_id\<close>, \<open>details.name\<close>, \<open>pet_id\<close>, \<open>model_number\<close>, \<open>fw_version\<close>,
  \<open>battery_level\<close>, \<open>charging_state\<close>, \<open>capabilities\<close>) and of a geofence (\<open>_id\<close>,
  \<open>name\<close>, \<open>active\<close>, \<open>shape\<close>). A member that is present has the JSON type the
  interfaces of the client declare for it.
\<close>

record shape =
  shape_type :: "string option"
  shape_center :: "lat_lng option"
  shape_radius :: "real option"
  shape_coordinates :: "lat_lng list option"

record item =
  item_time :: "int option"
  item_lat :: "real option"
  item_lng :: "real option"
  item_speed :: "real option"
  item_pos_uncertainty :: "real option"
  item_altitude :: "real option"
  item_sensor_used :: "string option"
  item_pos_status :: "real option"
  item_id :: "string option"
  item_details_name :: "string option"
  item_pet_id :: "string option"
  item_model_number :: "string option"
  item_fw_version :: "string option"
  item_battery_level :: "real option"
  item_charging_state :: "string option"
  item_capabilities :: "string list option"
  item_name :: "string option"
  item_active :: "bool option"
  item_shape :: "shape option"

text \<open>
  The objects the operations build. Their members that copy a member of the payload
  (\<open>id\<close>, \<open>pet_id\<close>, \<open>timestamp\<close>, \<open>latitude\<close>, \<open>longitude\<close>, \<open>altitude\<close>, the members of
  a geofence) are \<open>undefined\<close> when the payload lacks it, whatever the interfaces
  \<open>Tracker\<close>, \<open>Position\<close> and \<open>Geofence\<close> declare; \<open>reported_position\<close> is the object that
  getLatestPosition and getPositionHistory build under the interface \<open>Position\<close>.
\<close>

record tracker =
  tr_id :: "string option"
  tr_name :: string
  tr_pet_id :: "string option"
  tr_model :: string
  tr_firmware :: string
  tr_battery_level :: real
  tr_battery_state :: string
  tr_capabilities :: "string list"

record reported_position =
  rp_tracker_id :: string
  rp_timestamp :: "int option"
  rp_latitude :: "real option"
  rp_longitude :: "real option"
  rp_speed :: real
  rp_accuracy :: real
  rp_altitude :: "real option"
  rp_sensor_used :: string
  rp_pos_status :: real


text \<open>
  The payload of a reply: no data (\<open>null\<close>, \<open>undefined\<close> or empty), the object
  \<open>{access_token, user_id, expires_in}\<close> that answers a login, or an array of objects.
  To an operation that expects an array the login object is just an object that is not an
  array. Payloads of other kinds (a number, a non-empty text, an array with an element
  that is not an object) are outside this typed model.
\<close>

datatype body =
    NoData
  | LoginData "string option" string int
  | ArrayData "item list"

text \<open>
  What the upstream does with a request: it answers with a status and a payload, or the
  transport fails with no response at all (timeout, connection refused).
\<close>

datatype reply = Response nat body | NoResponse

text \<open>
  The upstream service is a function of everything it has received so far: given the
  requests on the wire, oldest first, it yields the reply to the latest one.
\<close>

type_synonym upstream = "http_request list \<Rightarrow> reply"

text \<open>An axios promise settles as fulfilled (status 2xx) or rejected with the error.\<close>

datatype axios_result = Fulfilled nat body | Rejected reply

record credentials =
  email :: string
  password :: string

subsection \<open>Dates\<close>

text \<open>
  A \<open>Date\<close> holds a time value: NaN, the Invalid Date, or a whole number of milliseconds
  since the epoch of magnitude at most 8,640,000,000,000,000. \<open>new Date(ms)\<close> yields the
  Invalid Date outside that range, and so does \<open>new Date(text)\<close> for a text that does not
  parse. \<open>toISOString()\<close> throws a RangeError on an Invalid Date, here \<open>None\<close>; a
  \<open>DateAt\<close> beyond the range, which no JavaScript program can build, is treated likewise.
\<close>

datatype js_date = InvalidDate | DateAt int

definition newDate :: "int \<Rightarrow> js_date" where
  "newDate ms = (if \<bar>ms\<bar> \<le> 8640000000000000 then DateAt ms else InvalidDate)"

definition toISOString :: "js_date \<Rightarrow> int option" where
  "toISOString d =
     (case d of
        InvalidDate \<Rightarrow> None
      | DateAt ms \<Rightarrow> if \<bar>ms\<bar> \<le> 8640000000000000 then Some ms else None)"

subsection \<open>The state of the service\<close>

text \<open>
  The three private fields of the class, the \<open>Authorization\<close> default header of its axios
  instance, and the trace \<open>sent\<close> of the requests the instance has put on the wire.
\<close>

record service =
  accessToken :: "string option"
  userId :: "string option"
  sessionExpiry :: "int option"
  defaultAuthorization :: "string option"
  sent :: "http_request list"

text \<open>JavaScript truthiness of a \<open>string | null\<close> and of a \<open>number | null\<close>.\<close>

definition truthy :: "string option \<Rightarrow> bool" where
  "truthy v = (case v of None \<Rightarrow> False | Some t \<Rightarrow> t \<noteq> [])"

definition truthyNumber :: "int option \<Rightarrow> bool" where
  "truthyNumber v = (case v of None \<Rightarrow> False | Some n \<Rightarrow> n \<noteq> 0)"

definition bearer :: "string option \<Rightarrow> string" where
  "bearer tok = ''Bearer '' @ (case tok of None \<Rightarrow> ''null'' | Some t \<Rightarrow> t)"

subsection \<open>The axios instance with its response interceptor\<close>

text \<open>
  A request that names no \<open>Authorization\<close> header of its own carries the default one.
\<close>

definition stamp :: "service \<Rightarrow> http_request \<Rightarrow> http_request" where
  "stamp s rq =
     (case authorization rq of
        None \<Rightarrow> rq\<lparr>authorization := defaultAuthorization s\<rparr>
      | Some h \<Rightarrow> rq)"

definition transmit :: "upstream \<Rightarrow> service \<Rightarrow> http_request \<Rightarrow> reply \<times> service" where
  "transmit srv s rq =
     (let wire = sent s @ [stamp s rq] in (srv wire, s\<lparr>sent := wire\<rparr>))"

definition loginRequest :: "credentials \<Rightarrow> http_request" where
  "loginRequest cfg =
     \<lparr>http_method = POST, url = ''/auth/login'', params = [],
      payload = Credentials (email cfg) (password cfg), authorization = None\<rparr>"

text \<open>
  \<open>request\<close> is \<open>axiosInstance.request\<close> with the response interceptor of the constructor;
  \<open>authenticate\<close> is the method of that name, which posts through the same instance. The
  interceptor calls \<open>authenticate\<close> and then \<open>request\<close> again, and nothing in the source
  bounds that recursion, so both functions take fuel: the result \<open>None\<close> means that the
  nesting of calls went deeper than the fuel. An axios error always carries the
  \<open>config\<close> of its request, so the interceptor's test \<open>if (error.config)\<close> succeeds.
  \<open>now\<close> is the reading of \<open>Date.now()\<close>, in milliseconds since the epoch, taken as
  constant during one operation.
\<close>

fun request :: "upstream \<Rightarrow> credentials \<Rightarrow> nat \<Rightarrow> nat \<Rightarrow> service \<Rightarrow> http_request
                  \<Rightarrow> (axios_result \<times> service) option"
and authenticate :: "upstream \<Rightarrow> credentials \<Rightarrow> nat \<Rightarrow> nat \<Rightarrow> service
                  \<Rightarrow> (bool \<times> service) option"
where
  "request srv cfg now 0 s rq = None"
| "request srv cfg now (Suc fuel) s rq =
     (case transmit srv s rq of
        (Response status d, s1) \<Rightarrow>
          if 200 \<le> status \<and> status < 300 then Some (Fulfilled status d, s1)
          else if status = 401 \<and> truthy (accessToken s1) then
            (case authenticate srv cfg now fuel s1 of
               None \<Rightarrow> None
             | Some (refreshed, s2) \<Rightarrow>
                 request srv cfg now fuel s2
                   (rq\<lparr>authorization := Some (bearer (accessToken s2))\<rparr>))
          else Some (Rejected (Response status d), s1)
      | (NoResponse, s1) \<Rightarrow> Some (Rejected NoResponse, s1))"
| "authenticate srv cfg now 0 s = None"
| "authenticate srv cfg now (Suc fuel) s =
     (case request srv cfg now fuel s (loginRequest cfg) of
        None \<Rightarrow> None
      | Some (Fulfilled status (LoginData access_token user_id expires_in), s1) \<Rightarrow>
          if truthy access_token
          then Some (True,
                 s1\<lparr>accessToken := access_token,
                    userId := Some user_id,
                    sessionExpiry := Some (int now + expires_in * 1000),
                    defaultAuthorization := Some (bearer access_token)\<rparr>)
          else Some (False, s1)
      | Some (r, s1) \<Rightarrow> Some (False, s1))"

definition isSessionValid :: "nat \<Rightarrow> service \<Rightarrow> bool" where
  "isSessionValid now s =
     (truthy (accessToken s) \<and> truthyNumber (sessionExpiry s) \<and>
      (case sessionExpiry s of None \<Rightarrow> False | Some expiry \<Rightarrow> int now < expiry))"

text \<open>A thrown \<open>Error(message)\<close> is the left injection of its message.\<close>

definition ensureAuthenticated :: "upstream \<Rightarrow> credentials \<Rightarrow> nat \<Rightarrow> nat \<Rightarrow> service
                  \<Rightarrow> ((string + unit) \<times> service) option" where
  "ensureAuthenticated srv cfg now fuel s =
     (if \<not> isSessionValid now s
      then (case authenticate srv cfg now fuel s of
              None \<Rightarrow> None
            | Some (success, s1) \<Rightarrow>
                if \<not> success
                then Some (Inl ''Failed to authenticate with Tractive API'', s1)
                else Some (Inr (), s1))
      else Some (Inr (), s))"

subsection \<open>The operations\<close>

text \<open>
  Every public operation has the same envelope: \<open>await this.ensureAuthenticated()\<close>, whose
  error propagates as it is; then, inside \<open>try\<close>, the arguments of the call are evaluated,
  the axios instance is called once and the payload is projected; any exception inside
  \<open>try\<close> (an argument that cannot be evaluated, a rejected call, a payload that cannot be
  projected) is replaced by \<open>Error(failure)\<close>. The request is built after the
  authentication step, from the state it leaves; \<open>build\<close> yields \<open>None\<close> when evaluating
  the arguments throws, and then nothing is sent.
\<close>

definition operation :: "upstream \<Rightarrow> credentials \<Rightarrow> nat \<Rightarrow> nat \<Rightarrow> service
      \<Rightarrow> (service \<Rightarrow> http_request option) \<Rightarrow> (nat \<Rightarrow> body \<Rightarrow> 'a option) \<Rightarrow> string
      \<Rightarrow> ((string + 'a) \<times> service) option" where
  "operation srv cfg now fuel s build project failure =
     (case ensureAuthenticated srv cfg now fuel s of
        None \<Rightarrow> None
      | Some (Inl err, s1) \<Rightarrow> Some (Inl err, s1)
      | Some (Inr u, s1) \<Rightarrow>
          (case build s1 of
             None \<Rightarrow> Some (Inl failure, s1)
           | Some rq \<Rightarrow>
               (case request srv cfg now fuel s1 rq of
                  None \<Rightarrow> None
                | Some (Rejected err, s2) \<Rightarrow> Some (Inl failure, s2)
                | Some (Fulfilled status d, s2) \<Rightarrow>
                    (case project status d of
                       None \<Rightarrow> Some (Inl failure, s2)
                     | Some v \<Rightarrow> Some (Inr v, s2)))))"

text \<open>The JavaScript default \<open>v || d\<close> on an optional number and an optional string.\<close>

definition orNumber :: "real option \<Rightarrow> real \<Rightarrow> real" where
  "orNumber v d = (case v of None \<Rightarrow> d | Some x \<Rightarrow> if x = 0 then d else x)"

definition orString :: "string option \<Rightarrow> string \<Rightarrow> string" where
  "orString v d = (case v of None \<Rightarrow> d | Some x \<Rightarrow> if x = [] then d else x)"

text \<open>
  The projections of one element, the callbacks of \<open>map\<close>. In a template string an
  \<open>undefined\<close> member reads \<open>undefined\<close>. \<open>toGeofence\<close> yields \<open>None\<close> when the element has
  no \<open>shape\<close>: reading \<open>fence.shape.type\<close> then throws a TypeError.
\<close>

definition toTracker :: "item \<Rightarrow> tracker" where
  "toTracker t =
     \<lparr>tr_id = item_id t,
      tr_name = orString (item_details_name t)
                  (''Tracker '' @ (case item_id t of None \<Rightarrow> ''undefined'' | Some i \<Rightarrow> i)),
      tr_pet_id = item_pet_id t,
      tr_model = orString (item_model_number t) ''Unknown'',
      tr_firmware = orString (item_fw_version t) ''Unknown'',
      tr_battery_level = orNumber (item_battery_level t) 0,
      tr_battery_state = orString (item_charging_state t) ''unknown'',
      tr_capabilities = (case item_capabilities t of None \<Rightarrow> [] | Some cs \<Rightarrow> cs)\<rparr>"

definition toPosition :: "string \<Rightarrow> item \<Rightarrow> reported_position" where
  "toPosition trackerId pos =
     \<lparr>rp_tracker_id = trackerId,
      rp_timestamp = item_time pos,
      rp_latitude = item_lat pos,
      rp_longitude = item_lng pos,
      rp_speed = orNumber (item_speed pos) 0,
      rp_accuracy = orNumber (item_pos_uncertainty pos) 0,
      rp_altitude = item_altitude pos,
      rp_sensor_used = orString (item_sensor_used pos) ''unknown'',
      rp_pos_status = orNumber (item_pos_status pos) 0\<rparr>"


definition trackersRequest :: "service \<Rightarrow> http_request" where
  "trackersRequest s =
     \<lparr>http_method = GET,
      url = ''/user/'' @ (case userId s of None \<Rightarrow> ''null'' | Some u \<Rightarrow> u) @ ''/trackers'',
      params = [], payload = NoPayload, authorization = None\<rparr>"

definition positionsRequest :: "string \<Rightarrow> int \<Rightarrow> int \<Rightarrow> http_request" where
  "positionsRequest trackerId time_from time_to =
     \<lparr>http_method = GET,
      url = ''/tracker/'' @ trackerId @ ''/positions'',
      params = [(''time_from'', DateParam time_from), (''time_to'', DateParam time_to),
                (''format'', TextParam ''json_segments'')],
      payload = NoPayload, authorization = None\<rparr>"

definition geofencesRequest :: "string \<Rightarrow> http_request" where
  "geofencesRequest trackerId =
     \<lparr>http_method = GET, url = ''/tracker/'' @ trackerId @ ''/geofences'',
      params = [], payload = NoPayload, authorization = None\<rparr>"




text \<open>
  The position query renders its two dates with \<open>toISOString()\<close>, \<open>time_from\<close> first; the
  request exists only when both render.
\<close>

definition positionsQuery :: "string \<Rightarrow> js_date \<Rightarrow> js_date \<Rightarrow> http_request option" where
  "positionsQuery trackerId from to =
     (case toISOString from of
        None \<Rightarrow> None
      | Some time_from \<Rightarrow>
          (case toISOString to of
             None \<Rightarrow> None
           | Some time_to \<Rightarrow> Some (positionsRequest trackerId time_from time_to)))"

definition getTrackers :: "upstream \<Rightarrow> credentials \<Rightarrow> nat \<Rightarrow> nat \<Rightarrow> service
      \<Rightarrow> ((string + tracker list) \<times> service) option" where
  "getTrackers srv cfg now fuel s =
     operation srv cfg now fuel s (\<lambda>s1. Some (trackersRequest s1))
       (\<lambda>status d. case d of ArrayData trackers \<Rightarrow> Some (map toTracker trackers) | _ \<Rightarrow> None)
       ''Failed to fetch trackers''"

definition getLatestPosition :: "upstream \<Rightarrow> credentials \<Rightarrow> nat \<Rightarrow> nat \<Rightarrow> service \<Rightarrow> string
      \<Rightarrow> ((string + reported_position option) \<times> service) option" where
  "getLatestPosition srv cfg now fuel s trackerId =
     operation srv cfg now fuel s
       (\<lambda>s1. positionsQuery trackerId (newDate (int now - 24 * 60 * 60 * 1000)) (newDate (int now)))
       (\<lambda>status d. case d of
            ArrayData positions \<Rightarrow>
              if 0 < length positions
              then Some (Some (toPosition trackerId (positions ! (length positions - 1))))
              else Some None
          | _ \<Rightarrow> Some None)
       ''Failed to fetch latest position''"

definition getPositionHistory :: "upstream \<Rightarrow> credentials \<Rightarrow> nat \<Rightarrow> nat \<Rightarrow> service \<Rightarrow> string
      \<Rightarrow> js_date \<Rightarrow> js_date \<Rightarrow> ((string + reported_position list) \<times> service) option" where
  "getPositionHistory srv cfg now fuel s trackerId from to =
     operation srv cfg now fuel s
       (\<lambda>s1. positionsQuery trackerId from to)
       (\<lambda>status d. case d of
            ArrayData positions \<Rightarrow> Some (map (toPosition trackerId) positions)
          | NoData \<Rightarrow> Some []
          | LoginData access_token user_id expires_in \<Rightarrow> None)
       ''Failed to fetch position history''"





subsection \<open>Vocabulary for the properties of the client\<close>

text \<open>
  A login request is recognised by its URL. \<open>loginCount\<close> and \<open>callCount\<close> count the
  logins and the other requests of a trace; \<open>settle\<close> is how axios settles a reply when no
  interceptor intervenes.
\<close>

definition isLogin :: "http_request \<Rightarrow> bool" where
  "isLogin rq = (url rq = ''/auth/login'')"

definition settle :: "reply \<Rightarrow> axios_result" where
  "settle rep =
     (case rep of
        Response status d \<Rightarrow>
          if 200 \<le> status \<and> status < 300 then Fulfilled status d else Rejected rep
      | NoResponse \<Rightarrow> Rejected rep)"

definition loginCount :: "http_request list \<Rightarrow> nat" where
  "loginCount wire = length (filter isLogin wire)"

definition callCount :: "http_request list \<Rightarrow> nat" where
  "callCount wire = length (filter (\<lambda>rq. \<not> isLogin rq) wire)"


text \<open>
  Upstream services on which the theorems are exercised. \<open>rejecting k final\<close> accepts every
  login, answers 401 to the first \<open>k\<close> other requests and \<open>final\<close> to the later ones;
  \<open>unauthorized\<close> answers 401 to everything; \<open>answering d\<close> accepts every login and answers
  200 with payload \<open>d\<close> to everything else; \<open>notFound\<close> answers 404 to everything.
\<close>

definition rejecting :: "nat \<Rightarrow> reply \<Rightarrow> upstream" where
  "rejecting k final wire =
     (if wire = [] then NoResponse
      else if isLogin (last wire) then Response 200 (LoginData (Some ''renewed'') ''user-1'' 3600)
      else if callCount wire \<le> k then Response 401 NoData
      else final)"

definition unauthorized :: upstream where
  "unauthorized wire = Response 401 NoData"

definition answering :: "body \<Rightarrow> upstream" where
  "answering d wire =
     (if wire \<noteq> [] \<and> isLogin (last wire)
      then Response 200 (LoginData (Some ''renewed'') ''user-1'' 3600)
      else Response 200 d)"


text \<open>
  Sample states: a service holding a token that expires at 5000 ms, and a fresh one.
\<close>

definition signedIn :: service where
  "signedIn =
     \<lparr>accessToken = Some ''token-0'', userId = Some ''user-1'', sessionExpiry = Some 5000,
      defaultAuthorization = Some ''Bearer token-0'', sent = []\<rparr>"

definition signedOut :: service where
  "signedOut =
     \<lparr>accessToken = None, userId = None, sessionExpiry = None,
      defaultAuthorization = None, sent = []\<rparr>"

definition account :: credentials where
  "account = \<lparr>email = ''owner@example.org'', password = ''secret''\<rparr>"



section \<open>Properties of the trail analytics\<close>

subsection \<open>The two loops as sums\<close>

lemma distanceLoop_sum:
  "distanceLoop ps i t =
     t + (\<Sum>j = i..<length ps.
            calculateHaversineDistance (latitude (ps ! (j - 1))) (longitude (ps ! (j - 1)))
              (latitude (ps ! j)) (longitude (ps ! j)))"
proof (induct ps i t rule: distanceLoop.induct)
  case (1 ps i t)
  show ?case
  proof (cases "i < length ps")
    case False
    then show ?thesis by simp
  next
    case True
    have "distanceLoop ps i t = distanceLoop ps (i + 1)
            (t + calculateHaversineDistance (latitude (ps ! (i - 1))) (longitude (ps ! (i - 1)))
              (latitude (ps ! i)) (longitude (ps ! i)))"
      using True by simp
    then show ?thesis
      using "1.hyps" [OF True] True
      by (simp add: sum.atLeast_Suc_lessThan del: distanceLoop.simps)
  qed
qed

lemma elevationLoop_sums:
  "elevationLoop es i p =
     (fst p + positiveDeltaSum (map (\<lambda>j. elevation (es ! j) - elevation (es ! (j - 1))) [i..<length es]),
      snd p + negativeDeltaSum (map (\<lambda>j. elevation (es ! j) - elevation (es ! (j - 1))) [i..<length es]))"
proof (induct es i p rule: elevationLoop.induct)
  case (1 es i g l)
  show ?case
  proof (cases "i < length es")
    case False
    then show ?thesis by (simp add: positiveDeltaSum_def negativeDeltaSum_def)
  next
    case True
    let ?d = "elevation (es ! i) - elevation (es ! (i - 1))"
    have up: "[i..<length es] = i # [i + 1..<length es]"
      using True by (simp add: upt_conv_Cons)
    show ?thesis
    proof (cases "0 < ?d")
      case pos: True
      have "elevationLoop es i (g, l) = elevationLoop es (i + 1) (g + ?d, l)"
        using True pos by (simp add: Let_def)
      also have "\<dots> = (g + ?d + positiveDeltaSum (map (\<lambda>j. elevation (es ! j) - elevation (es ! (j - 1))) [i + 1..<length es]),
      l + negativeDeltaSum (map (\<lambda>j. elevation (es ! j) - elevation (es ! (j - 1))) [i + 1..<length es]))"
        using "1.hyps"(1)[OF True refl pos] by simp
      finally show ?thesis using pos
        by (simp add: up positiveDeltaSum_def negativeDeltaSum_def del: elevationLoop.simps upt_Suc)
    next
      case neg: False
      have "elevationLoop es i (g, l) = elevationLoop es (i + 1) (g, l + \<bar>?d\<bar>)"
        using True neg by (simp add: Let_def)
      also have "\<dots> = (g + positiveDeltaSum (map (\<lambda>j. elevation (es ! j) - elevation (es ! (j - 1))) [i + 1..<length es]),
      l + \<bar>?d\<bar> + negativeDeltaSum (map (\<lambda>j. elevation (es ! j) - elevation (es ! (j - 1))) [i + 1..<length es]))"
        using "1.hyps"(2)[OF True refl neg] by simp
      finally show ?thesis using neg
        by (simp add: up positiveDeltaSum_def negativeDeltaSum_def del: elevationLoop.simps upt_Suc)
    qed
  qed
qed

lemma distance_calculateTrailStats:
  "2 \<le> length ps \<Longrightarrow> distance (calculateTrailStats ps es) = distanceLoop ps 1 0"
  by (simp add: calculateTrailStats_def Let_def split: prod.split del: distanceLoop.simps)

lemma gain_loss_calculateTrailStats:
  "2 \<le> length ps \<Longrightarrow>
   (elevationGain (calculateTrailStats ps es), elevationLoss (calculateTrailStats ps es)) =
     (case es of None \<Rightarrow> (0, 0)
      | Some xs \<Rightarrow> if 1 < length xs then elevationLoop xs 1 (0, 0) else (0, 0))"
  by (simp add: calculateTrailStats_def Let_def split: prod.split option.split
        del: distanceLoop.simps elevationLoop.simps)

subsection \<open>Sample computations\<close>

lemma haversine_equator_half_turn:
  "calculateHaversineDistance 0 (- 90) 0 90 = 6371000 * pi"
  by (simp add: calculateHaversineDistance_def toRadians_def atan2_def)

lemma haversine_pole:
  "calculateHaversineDistance 90 0 90 180 = 0"
  by (simp add: calculateHaversineDistance_def toRadians_def atan2_def)

lemma distance_example:
  "distance (calculateTrailStats [positionAt 0 (- 90) 0, positionAt 0 90 60000] es) = 6371000 * pi"
  by (simp add: distance_calculateTrailStats distanceLoop_sum haversine_equator_half_turn
        positionAt_def del: distanceLoop.simps)

lemma descent_example:
  "elevationGain (calculateTrailStats [positionAt 0 (- 90) 0, positionAt 0 90 60000]
       (Some [elevationSample 10, elevationSample 0])) = 0 \<and>
   elevationLoss (calculateTrailStats [positionAt 0 (- 90) 0, positionAt 0 90 60000]
       (Some [elevationSample 10, elevationSample 0])) = 10"
  using gain_loss_calculateTrailStats [of "[positionAt 0 (- 90) 0, positionAt 0 90 60000]"
      "Some [elevationSample 10, elevationSample 0]"]
  by (simp add: elevationSample_def)

lemma elevationDeltas_example:
  "elevationDeltas [elevationSample 100, elevationSample 150, elevationSample 120, elevationSample 140]
     = [50, - 30, 20]"
  by (simp add: elevationDeltas_def elevationSample_def upt_rec)

lemma calculateHaversineDistance_shift_lng:
  "calculateHaversineDistance lat1 (lng1 + d) lat2 (lng2 + d) =
   calculateHaversineDistance lat1 lng1 lat2 lng2"
  by (simp add: calculateHaversineDistance_def)

subsection \<open>The statistics\<close>

text \<open>
  C7. A position sequence with fewer than two positions (empty or a single element) yields
  a TrailStats whose six fields are all 0, whatever elevation samples are supplied; the
  function is total, so no error is raised.
\<close>

theorem calculateTrailStats_short:
  "length positions < 2 \<Longrightarrow>
   calculateTrailStats positions elevations =
     \<lparr>distance = 0, duration = 0, avgSpeed = 0,
      elevationGain = 0, elevationLoss = 0, avgGrade = 0\<rparr>"
  by (simp add: calculateTrailStats_def)

text \<open>
  C7, exercised on a single position together with two elevation samples.
\<close>

theorem calculateTrailStats_short_witness:
  "length [positionAt 48 16 0] < 2 \<and>
   calculateTrailStats [positionAt 48 16 0] (Some [elevationSample 100, elevationSample 150]) =
     \<lparr>distance = 0, duration = 0, avgSpeed = 0,
      elevationGain = 0, elevationLoss = 0, avgGrade = 0\<rparr>"
  using calculateTrailStats_short [of "[positionAt 48 16 0]" "Some [elevationSample 100, elevationSample 150]"]
  by simp

text \<open>
  C5 as stated does not hold: the elevation figures are not independent of the position
  count. With fewer than two positions the early return gives 0 for both, although the
  samples [100, 150, 120, 140] have positive deltas summing to 70.
\<close>

theorem calculateTrailStats_elevation_counterexample:
  "elevationGain (calculateTrailStats []
       (Some [elevationSample 100, elevationSample 150, elevationSample 120, elevationSample 140])) = 0 \<and>
   positiveDeltaSum (elevationDeltas
       [elevationSample 100, elevationSample 150, elevationSample 120, elevationSample 140]) = 70"
  by (simp add: calculateTrailStats_def elevationDeltas_example positiveDeltaSum_def)

text \<open>
  C5, amended. When there are at least two positions, \<open>elevationGain\<close> is the sum of the
  positive deltas between consecutive elevation samples and \<open>elevationLoss\<close> the sum of
  the absolute values of the negative deltas, computed over the elevation sequence alone
  whenever it has at least two samples; with no elevation sequence or fewer than two
  samples both are 0.
\<close>

theorem calculateTrailStats_elevation:
  assumes "2 \<le> length positions"
  shows "elevationGain (calculateTrailStats positions elevations) =
           (case elevations of None \<Rightarrow> 0
            | Some es \<Rightarrow> if 2 \<le> length es then positiveDeltaSum (elevationDeltas es) else 0) \<and>
         elevationLoss (calculateTrailStats positions elevations) =
           (case elevations of None \<Rightarrow> 0
            | Some es \<Rightarrow> if 2 \<le> length es then negativeDeltaSum (elevationDeltas es) else 0)"
  using gain_loss_calculateTrailStats [OF assms, of elevations]
  by (auto simp add: elevationLoop_sums elevationDeltas_def positiveDeltaSum_def negativeDeltaSum_def
        split: option.splits if_splits simp del: elevationLoop.simps)

text \<open>
  C5, amended, exercised on the samples [100, 150, 120, 140]: gain 70, loss 30.
\<close>

theorem calculateTrailStats_elevation_witness:
  "2 \<le> length [positionAt 0 (- 90) 0, positionAt 0 90 60000] \<and>
   elevationGain (calculateTrailStats [positionAt 0 (- 90) 0, positionAt 0 90 60000]
       (Some [elevationSample 100, elevationSample 150, elevationSample 120, elevationSample 140])) = 70 \<and>
   elevationLoss (calculateTrailStats [positionAt 0 (- 90) 0, positionAt 0 90 60000]
       (Some [elevationSample 100, elevationSample 150, elevationSample 120, elevationSample 140])) = 30"
  using calculateTrailStats_elevation [of "[positionAt 0 (- 90) 0, positionAt 0 90 60000]"
      "Some [elevationSample 100, elevationSample 150, elevationSample 120, elevationSample 140]"]
  by (simp add: elevationDeltas_example positiveDeltaSum_def negativeDeltaSum_def)

text \<open>
  C6. For every input \<open>avgGrade\<close> is \<open>(elevationGain - elevationLoss) / distance * 100\<close>
  when the distance is positive and 0 otherwise, in particular when the distance is 0; and
  the grade is negative whenever the distance is positive and the loss exceeds the gain.
\<close>

theorem calculateTrailStats_avgGrade:
  "avgGrade (calculateTrailStats positions elevations) =
     (if 0 < distance (calculateTrailStats positions elevations)
      then (elevationGain (calculateTrailStats positions elevations) -
            elevationLoss (calculateTrailStats positions elevations)) /
           distance (calculateTrailStats positions elevations) * 100
      else 0) \<and>
   (distance (calculateTrailStats positions elevations) = 0 \<longrightarrow>
    avgGrade (calculateTrailStats positions elevations) = 0) \<and>
   (0 < distance (calculateTrailStats positions elevations) \<and>
    elevationGain (calculateTrailStats positions elevations) <
      elevationLoss (calculateTrailStats positions elevations) \<longrightarrow>
    avgGrade (calculateTrailStats positions elevations) < 0)"
proof -
  let ?s = "calculateTrailStats positions elevations"
  have formula: "avgGrade ?s =
     (if 0 < distance ?s then (elevationGain ?s - elevationLoss ?s) / distance ?s * 100 else 0)"
    by (simp add: calculateTrailStats_def Let_def split: prod.split
          del: distanceLoop.simps elevationLoop.simps)
  have zero: "distance ?s = 0 \<longrightarrow> avgGrade ?s = 0"
    unfolding formula by simp
  have neg: "0 < distance ?s \<and> elevationGain ?s < elevationLoss ?s \<longrightarrow> avgGrade ?s < 0"
  proof
    assume h: "0 < distance ?s \<and> elevationGain ?s < elevationLoss ?s"
    then have d: "0 < distance ?s" and gl: "elevationGain ?s - elevationLoss ?s < 0"
      by simp_all
    have "(elevationGain ?s - elevationLoss ?s) / distance ?s * 100 < 0"
      using d gl by (intro mult_neg_pos divide_neg_pos) simp_all
    moreover have "avgGrade ?s = (elevationGain ?s - elevationLoss ?s) / distance ?s * 100"
      unfolding formula using d by (rule if_P)
    ultimately show "avgGrade ?s < 0" by (simp only:)
  qed
  show ?thesis using formula zero neg by blast
qed

text \<open>
  C6, exercised on a descent of 10 m along half the equator, where the grade is negative,
  and on a single position, where the distance and the grade are 0.
\<close>

theorem calculateTrailStats_avgGrade_witness:
  "0 < distance (calculateTrailStats [positionAt 0 (- 90) 0, positionAt 0 90 60000]
            (Some [elevationSample 10, elevationSample 0])) \<and>
   elevationGain (calculateTrailStats [positionAt 0 (- 90) 0, positionAt 0 90 60000]
       (Some [elevationSample 10, elevationSample 0])) <
   elevationLoss (calculateTrailStats [positionAt 0 (- 90) 0, positionAt 0 90 60000]
       (Some [elevationSample 10, elevationSample 0])) \<and>
   avgGrade (calculateTrailStats [positionAt 0 (- 90) 0, positionAt 0 90 60000]
       (Some [elevationSample 10, elevationSample 0])) = - 10 / (6371000 * pi) * 100 \<and>
   avgGrade (calculateTrailStats [positionAt 0 (- 90) 0, positionAt 0 90 60000]
       (Some [elevationSample 10, elevationSample 0])) < 0 \<and>
   distance (calculateTrailStats [positionAt 48 16 0]
       (Some [elevationSample 10, elevationSample 0])) = 0 \<and>
   avgGrade (calculateTrailStats [positionAt 48 16 0]
       (Some [elevationSample 10, elevationSample 0])) = 0"
proof -
  have single: "distance (calculateTrailStats [positionAt 48 16 0]
       (Some [elevationSample 10, elevationSample 0])) = 0"
    by (simp add: calculateTrailStats_def)
  show ?thesis
    using single
      calculateTrailStats_avgGrade [of "[positionAt 0 (- 90) 0, positionAt 0 90 60000]"
        "Some [elevationSample 10, elevationSample 0]"]
      calculateTrailStats_avgGrade [of "[positionAt 48 16 0]"
        "Some [elevationSample 10, elevationSample 0]"]
    by (simp add: distance_example descent_example)
qed

text \<open>
  C9 as stated does not hold: the haversine distance depends on the latitudes themselves.
  Two points of the equator half a turn apart are 6371000 * pi metres apart; shifted by
  90 degrees in latitude and longitude both lie on the pole, at distance 0.
\<close>

theorem calculateTrailStats_translation_counterexample:
  "distance (calculateTrailStats [positionAt 0 (- 90) 0, positionAt 0 90 60000] None) = 6371000 * pi \<and>
   distance (calculateTrailStats
      (map (shiftPosition 90 90) [positionAt 0 (- 90) 0, positionAt 0 90 60000]) None) = 0"
  by (simp add: distance_calculateTrailStats distanceLoop_sum haversine_equator_half_turn
        haversine_pole positionAt_def shiftPosition_def del: distanceLoop.simps)

text \<open>
  C9, amended. Adding the same offset to the longitude of every position, the latitudes
  unchanged, leaves the distance computed by calculateTrailStats unchanged.
\<close>

theorem calculateTrailStats_longitude_shift:
  "distance (calculateTrailStats (map (shiftPosition 0 dLng) positions) elevations) =
   distance (calculateTrailStats positions elevations)"
proof (cases "2 \<le> length positions")
  case False
  then show ?thesis by (simp add: calculateTrailStats_def)
next
  case True
  let ?qs = "map (shiftPosition 0 dLng) positions"
  have step: "calculateHaversineDistance (latitude (?qs ! (j - 1))) (longitude (?qs ! (j - 1)))
                (latitude (?qs ! j)) (longitude (?qs ! j)) =
              calculateHaversineDistance (latitude (positions ! (j - 1)))
                (longitude (positions ! (j - 1))) (latitude (positions ! j)) (longitude (positions ! j))"
    if "j \<in> {1..<length positions}" for j
  proof -
    from that have "j < length positions" "j - 1 < length positions" by auto
    then show ?thesis
      by (simp add: shiftPosition_def calculateHaversineDistance_shift_lng)
  qed
  have "distanceLoop ?qs 1 0 = distanceLoop positions 1 0"
    unfolding distanceLoop_sum length_map
    by (rule arg_cong [where f = "\<lambda>x. 0 + x"], rule sum.cong [OF refl], rule step)
  then show ?thesis using True
    by (simp add: distance_calculateTrailStats del: distanceLoop.simps)
qed

section \<open>Properties of the client\<close>

subsection \<open>One call of the axios instance\<close>

lemma url_stamp [simp]: "url (stamp s rq) = url rq"
  by (simp add: stamp_def split: option.split)

lemma isLogin_stamp [simp]: "isLogin (stamp s rq) = isLogin rq"
  by (simp add: isLogin_def)

lemma isLogin_authorization [simp]: "isLogin (rq\<lparr>authorization := h\<rparr>) = isLogin rq"
  by (simp add: isLogin_def)

lemma isLogin_loginRequest [simp]: "isLogin (loginRequest cfg)"
  by (simp add: isLogin_def loginRequest_def)

lemma loginCount_simps [simp]:
  "loginCount [] = 0"
  "loginCount (rq # w) = (if isLogin rq then Suc (loginCount w) else loginCount w)"
  "loginCount (w @ v) = loginCount w + loginCount v"
  by (simp_all add: loginCount_def)

lemma callCount_simps [simp]:
  "callCount [] = 0"
  "callCount (rq # w) = (if isLogin rq then callCount w else Suc (callCount w))"
  "callCount (w @ v) = callCount w + callCount v"
  by (simp_all add: callCount_def)

text \<open>
  The recursive equations of \<open>request\<close> and \<open>authenticate\<close> are unfolded only where a
  proof asks for them.
\<close>

declare request.simps [simp del] authenticate.simps [simp del]

lemma request_settled:
  assumes "srv (sent s @ [stamp s rq]) = rep"
    and "\<forall>d. rep = Response 401 d \<longrightarrow> \<not> truthy (accessToken s)"
  shows "request srv cfg now (Suc fuel) s rq =
           Some (settle rep, s\<lparr>sent := sent s @ [stamp s rq]\<rparr>)"
  using assms by (cases rep) (auto simp add: request.simps transmit_def Let_def settle_def)

lemma request_unauthorized:
  assumes "srv (sent s @ [stamp s rq]) = Response 401 d"
    and "truthy (accessToken s)"
  shows "request srv cfg now (Suc fuel) s rq =
           (case authenticate srv cfg now fuel (s\<lparr>sent := sent s @ [stamp s rq]\<rparr>) of
              None \<Rightarrow> None
            | Some (refreshed, s2) \<Rightarrow>
                request srv cfg now fuel s2 (rq\<lparr>authorization := Some (bearer (accessToken s2))\<rparr>))"
  using assms by (simp add: request.simps authenticate.simps transmit_def Let_def)

lemma authenticate_success:
  assumes "srv (sent s @ [stamp s (loginRequest cfg)]) = Response status (LoginData tok uid secs)"
    and "200 \<le> status" "status < 300" "truthy tok"
  shows "authenticate srv cfg now (Suc (Suc fuel)) s =
           Some (True,
             s\<lparr>sent := sent s @ [stamp s (loginRequest cfg)],
               accessToken := tok, userId := Some uid,
               sessionExpiry := Some (int now + secs * 1000),
               defaultAuthorization := Some (bearer tok)\<rparr>)"
  using assms by (simp add: request.simps authenticate.simps transmit_def Let_def)

lemma token_kept:
  "(\<forall>s rq r s'. request srv cfg now fuel s rq = Some (r, s') \<longrightarrow> truthy (accessToken s) \<longrightarrow>
       truthy (accessToken s')) \<and>
   (\<forall>s b s'. authenticate srv cfg now fuel s = Some (b, s') \<longrightarrow> truthy (accessToken s) \<longrightarrow>
       truthy (accessToken s'))"
proof (induction fuel)
  case 0
  show ?case by (simp add: request.simps authenticate.simps)
next
  case (Suc n)
  then have IHr: "\<And>s rq r s'. request srv cfg now n s rq = Some (r, s') \<Longrightarrow>
                    truthy (accessToken s) \<Longrightarrow> truthy (accessToken s')"
    and IHa: "\<And>s b s'. authenticate srv cfg now n s = Some (b, s') \<Longrightarrow>
                    truthy (accessToken s) \<Longrightarrow> truthy (accessToken s')"
    by blast+
  have req: "truthy (accessToken s')"
    if run: "request srv cfg now (Suc n) s rq = Some (r, s')" and tok: "truthy (accessToken s)"
    for s rq r s'
  proof -
    let ?s1 = "s\<lparr>sent := sent s @ [stamp s rq]\<rparr>"
    have tok1: "truthy (accessToken ?s1)" using tok by simp
    show ?thesis
    proof (cases "\<exists>d. srv (sent s @ [stamp s rq]) = Response 401 d")
      case False
      then have "request srv cfg now (Suc n) s rq =
                   Some (settle (srv (sent s @ [stamp s rq])), ?s1)"
        by (intro request_settled) auto
      with run tok1 show ?thesis by auto
    next
      case True
      then obtain d where rep: "srv (sent s @ [stamp s rq]) = Response 401 d" by blast
      have unfold: "request srv cfg now (Suc n) s rq =
           (case authenticate srv cfg now n ?s1 of
              None \<Rightarrow> None
            | Some (refreshed, s2) \<Rightarrow>
                request srv cfg now n s2 (rq\<lparr>authorization := Some (bearer (accessToken s2))\<rparr>))"
        using request_unauthorized [of srv s rq d cfg now n] rep tok by simp
      from run obtain b s2 where auth: "authenticate srv cfg now n ?s1 = Some (b, s2)"
        and again: "request srv cfg now n s2
                      (rq\<lparr>authorization := Some (bearer (accessToken s2))\<rparr>) = Some (r, s')"
        unfolding unfold by (auto split: option.splits)
      have "truthy (accessToken s2)" using IHa [OF auth tok1] .
      then show ?thesis using IHr [OF again] by simp
    qed
  qed
  have auth: "truthy (accessToken s')"
    if run: "authenticate srv cfg now (Suc n) s = Some (b, s')" and tok: "truthy (accessToken s)"
    for s b s'
  proof -
    from run obtain res s1 where login: "request srv cfg now n s (loginRequest cfg) = Some (res, s1)"
      by (auto simp add: authenticate.simps split: option.splits)
    have tok1: "truthy (accessToken s1)" using IHr [OF login tok] .
    show ?thesis
      using run tok1 unfolding authenticate.simps login
      by (cases res; cases "case res of Fulfilled st d \<Rightarrow> d | _ \<Rightarrow> NoData")
         (auto split: if_splits)
  qed
  show ?case using req auth by blast
qed

subsection \<open>The session\<close>

lemma isSessionValid_iff:
  "isSessionValid now s \<longleftrightarrow>
     (\<exists>tok expiry. accessToken s = Some tok \<and> tok \<noteq> [] \<and>
                   sessionExpiry s = Some expiry \<and> int now < expiry)"
  by (auto simp add: isSessionValid_def truthy_def truthyNumber_def split: option.splits)

lemma ensureAuthenticated_valid:
  "isSessionValid now s \<Longrightarrow> ensureAuthenticated srv cfg now fuel s = Some (Inr (), s)"
  by (simp add: ensureAuthenticated_def)

lemma ensureAuthenticated_refresh:
  assumes "\<not> isSessionValid now s"
    and "srv (sent s @ [stamp s (loginRequest cfg)]) = Response status (LoginData tok uid secs)"
    and "200 \<le> status" "status < 300" "truthy tok"
  shows "ensureAuthenticated srv cfg now (Suc (Suc fuel)) s =
           Some (Inr (),
             s\<lparr>sent := sent s @ [stamp s (loginRequest cfg)],
               accessToken := tok, userId := Some uid,
               sessionExpiry := Some (int now + secs * 1000),
               defaultAuthorization := Some (bearer tok)\<rparr>)"
  unfolding ensureAuthenticated_def
  using assms authenticate_success [of srv s cfg status tok uid secs now fuel]
  by simp

lemma signedIn_valid: "isSessionValid 1000 signedIn"
  by (simp add: isSessionValid_def signedIn_def truthy_def truthyNumber_def)


lemma operation_unbuilt:
  assumes "isSessionValid now s" and "build s = None"
  shows "operation srv cfg now fuel s build project failure = Some (Inl failure, s)"
  using assms by (simp add: operation_def ensureAuthenticated_valid)

lemma stamp_default:
  "authorization rq = None \<Longrightarrow> stamp s rq = rq\<lparr>authorization := defaultAuthorization s\<rparr>"
  by (simp add: stamp_def)


lemma answering_login:
  "isLogin rq \<Longrightarrow>
   answering d (w @ [rq]) = Response 200 (LoginData (Some ''renewed'') ''user-1'' 3600)"
  by (simp add: answering_def)

text \<open>
  C8. While the session is valid (the stored token is non-empty and the clock is strictly
  before the stored expiry) \<open>ensureAuthenticated\<close> succeeds with the state unchanged: the
  same token, and nothing put on the wire (it does so with any fuel, even 0, so no call of
  the axios instance is made). When no token is stored, or the clock has reached the
  expiry, the login request is sent, and when the upstream accepts it with a non-empty
  \<open>access_token\<close> that token, the user id and the new expiry replace the session.
\<close>

theorem ensureAuthenticated_session:
  "(accessToken s = Some tok \<and> tok \<noteq> [] \<and> sessionExpiry s = Some expiry \<and> int now < expiry \<longrightarrow>
      ensureAuthenticated srv cfg now fuel s = Some (Inr (), s)) \<and>
   ((accessToken s = None \<or> (sessionExpiry s = Some expiry \<and> expiry \<le> int now)) \<and>
    srv (sent s @ [stamp s (loginRequest cfg)]) = Response status (LoginData (Some fresh) uid secs) \<and>
    200 \<le> status \<and> status < 300 \<and> fresh \<noteq> [] \<longrightarrow>
      ensureAuthenticated srv cfg now (Suc (Suc fuel)) s =
        Some (Inr (),
          s\<lparr>sent := sent s @ [stamp s (loginRequest cfg)],
            accessToken := Some fresh, userId := Some uid,
            sessionExpiry := Some (int now + secs * 1000),
            defaultAuthorization := Some (bearer (Some fresh))\<rparr>))"
proof (intro conjI impI)
  assume "accessToken s = Some tok \<and> tok \<noteq> [] \<and> sessionExpiry s = Some expiry \<and> int now < expiry"
  then have "isSessionValid now s" unfolding isSessionValid_iff by blast
  then show "ensureAuthenticated srv cfg now fuel s = Some (Inr (), s)"
    by (rule ensureAuthenticated_valid)
next
  assume h: "(accessToken s = None \<or> (sessionExpiry s = Some expiry \<and> expiry \<le> int now)) \<and>
    srv (sent s @ [stamp s (loginRequest cfg)]) = Response status (LoginData (Some fresh) uid secs) \<and>
    200 \<le> status \<and> status < 300 \<and> fresh \<noteq> []"
  then have invalid: "\<not> isSessionValid now s" unfolding isSessionValid_iff by auto
  from h have "truthy (Some fresh)" by (simp add: truthy_def)
  with h invalid ensureAuthenticated_refresh [of now s srv cfg status "Some fresh" uid secs fuel]
  show "ensureAuthenticated srv cfg now (Suc (Suc fuel)) s =
        Some (Inr (),
          s\<lparr>sent := sent s @ [stamp s (loginRequest cfg)],
            accessToken := Some fresh, userId := Some uid,
            sessionExpiry := Some (int now + secs * 1000),
            defaultAuthorization := Some (bearer (Some fresh))\<rparr>)"
    by simp
qed

text \<open>
  C8, exercised on a session valid until 5000 ms: at 1000 ms nothing is sent; at 6000 ms,
  and on a fresh service, one login is sent and the token is replaced.
\<close>

theorem ensureAuthenticated_session_witness:
  "accessToken signedIn = Some ''token-0'' \<and> ''token-0'' \<noteq> [] \<and>
   sessionExpiry signedIn = Some 5000 \<and> int 1000 < 5000 \<and>
   ensureAuthenticated (answering NoData) account 1000 0 signedIn = Some (Inr (), signedIn) \<and>
   (5000::int) \<le> int 6000 \<and>
   answering NoData (sent signedIn @ [stamp signedIn (loginRequest account)]) =
     Response 200 (LoginData (Some ''renewed'') ''user-1'' 3600) \<and>
   ensureAuthenticated (answering NoData) account 6000 (Suc (Suc 0)) signedIn =
     Some (Inr (),
       signedIn\<lparr>sent := sent signedIn @ [stamp signedIn (loginRequest account)],
         accessToken := Some ''renewed'', userId := Some ''user-1'',
         sessionExpiry := Some (int 6000 + 3600 * 1000),
         defaultAuthorization := Some (bearer (Some ''renewed''))\<rparr>) \<and>
   accessToken signedOut = None \<and>
   ensureAuthenticated (answering NoData) account 1000 (Suc (Suc 0)) signedOut =
     Some (Inr (),
       signedOut\<lparr>sent := sent signedOut @ [stamp signedOut (loginRequest account)],
         accessToken := Some ''renewed'', userId := Some ''user-1'',
         sessionExpiry := Some (int 1000 + 3600 * 1000),
         defaultAuthorization := Some (bearer (Some ''renewed''))\<rparr>)"
proof -
  have reply: "answering NoData (sent s @ [stamp s (loginRequest account)]) =
     Response 200 (LoginData (Some ''renewed'') ''user-1'' 3600)" for s
    by (rule answering_login) simp
  have state: "accessToken signedIn = Some ''token-0''" "sessionExpiry signedIn = Some 5000"
    "accessToken signedOut = None"
    by (simp_all add: signedIn_def signedOut_def)
  show ?thesis
    using reply state
      ensureAuthenticated_session [of signedIn "''token-0''" 5000 1000 "answering NoData" account 0
        200 "''renewed''" "''user-1''" 3600]
      ensureAuthenticated_session [of signedIn "''token-0''" 5000 6000 "answering NoData" account 0
        200 "''renewed''" "''user-1''" 3600]
      ensureAuthenticated_session [of signedOut "''token-0''" 5000 1000 "answering NoData" account 0
        200 "''renewed''" "''user-1''" 3600]
    by simp
qed

subsection \<open>The response interceptor\<close>

text \<open>
  C10. The interceptor re-authenticates only when a token is stored. With no token held, a
  request answered 401 is rejected with that very response after exactly one transmission:
  no login, no retry. The same holds when the rejected request is the login itself, and
  \<open>authenticate\<close> then reports failure after that single transmission.
\<close>

theorem interceptor_without_token:
  assumes "\<not> truthy (accessToken s)"
  shows "(srv (sent s @ [stamp s rq]) = Response 401 d \<longrightarrow>
            request srv cfg now (Suc fuel) s rq =
              Some (Rejected (Response 401 d), s\<lparr>sent := sent s @ [stamp s rq]\<rparr>)) \<and>
         (srv (sent s @ [stamp s (loginRequest cfg)]) = Response 401 d \<longrightarrow>
            authenticate srv cfg now (Suc (Suc fuel)) s =
              Some (False, s\<lparr>sent := sent s @ [stamp s (loginRequest cfg)]\<rparr>))"
  using assms by (simp add: request.simps authenticate.simps transmit_def Let_def)

text \<open>
  C10, exercised on a fresh service and an upstream that answers 401 to everything.
\<close>

theorem interceptor_without_token_witness:
  "\<not> truthy (accessToken signedOut) \<and>
   unauthorized (sent signedOut @ [stamp signedOut (geofencesRequest ''T1'')]) =
     Response 401 NoData \<and>
   request unauthorized account 1000 (Suc 0) signedOut (geofencesRequest ''T1'') =
     Some (Rejected (Response 401 NoData),
           signedOut\<lparr>sent := sent signedOut @ [stamp signedOut (geofencesRequest ''T1'')]\<rparr>) \<and>
   unauthorized (sent signedOut @ [stamp signedOut (loginRequest account)]) =
     Response 401 NoData \<and>
   authenticate unauthorized account 1000 (Suc (Suc 0)) signedOut =
     Some (False, signedOut\<lparr>sent := sent signedOut @ [stamp signedOut (loginRequest account)]\<rparr>)"
proof -
  have token: "\<not> truthy (accessToken signedOut)"
    by (simp add: signedOut_def truthy_def)
  have reply: "unauthorized w = Response 401 NoData" for w
    by (simp add: unauthorized_def)
  show ?thesis
    using token reply
      interceptor_without_token [OF token, of unauthorized "geofencesRequest ''T1''" NoData
        account 1000 0]
    by simp
qed

text \<open>
  Against \<open>rejecting k final\<close> every 401 costs one login and one retry: the request settles
  as \<open>final\<close> settles, after as many logins as there were 401s.
\<close>

lemma rejecting_login:
  "isLogin rq \<Longrightarrow>
   rejecting k final (w @ [rq]) = Response 200 (LoginData (Some ''renewed'') ''user-1'' 3600)"
  by (simp add: rejecting_def)

lemma rejecting_early:
  "\<not> isLogin rq \<Longrightarrow> callCount w < k \<Longrightarrow>
   rejecting k final (w @ [rq]) = Response 401 NoData"
  by (simp add: rejecting_def)

lemma rejecting_late:
  "\<not> isLogin rq \<Longrightarrow> k \<le> callCount w \<Longrightarrow>
   rejecting k final (w @ [rq]) = final"
  by (simp add: rejecting_def)

lemma request_rejecting:
  assumes "\<forall>d. final \<noteq> Response 401 d"
  shows "truthy (accessToken s) \<Longrightarrow> \<not> isLogin rq \<Longrightarrow>
         callCount (sent s) + m = k \<Longrightarrow> m + 2 \<le> fuel \<Longrightarrow>
         \<exists>s'. request (rejecting k final) cfg now fuel s rq = Some (settle final, s') \<and>
              loginCount (sent s') = loginCount (sent s) + m \<and>
              callCount (sent s') = k + 1"
proof (induction m arbitrary: s rq fuel)
  case 0
  then obtain n where fuel: "fuel = Suc n" by (cases fuel) auto
  have rep: "rejecting k final (sent s @ [stamp s rq]) = final"
    using 0 by (intro rejecting_late) simp_all
  have "request (rejecting k final) cfg now (Suc n) s rq =
          Some (settle final, s\<lparr>sent := sent s @ [stamp s rq]\<rparr>)"
    using rep assms by (intro request_settled) auto
  then show ?case using 0 fuel by (simp)
next
  case (Suc m)
  then obtain n where fuel: "fuel = Suc (Suc (Suc n))" and n: "m \<le> n"
    by (cases fuel; cases "fuel - 1"; cases "fuel - 2") auto
  let ?s1 = "s\<lparr>sent := sent s @ [stamp s rq]\<rparr>"
  let ?s2 = "?s1\<lparr>sent := sent ?s1 @ [stamp ?s1 (loginRequest cfg)],
               accessToken := Some ''renewed'', userId := Some ''user-1'',
               sessionExpiry := Some (int now + 3600 * 1000),
               defaultAuthorization := Some (bearer (Some ''renewed''))\<rparr>"
  let ?rq = "rq\<lparr>authorization := Some (bearer (accessToken ?s2))\<rparr>"
  have rep: "rejecting k final (sent s @ [stamp s rq]) = Response 401 NoData"
    using Suc.prems by (intro rejecting_early) simp_all
  have loginrep: "rejecting k final (sent ?s1 @ [stamp ?s1 (loginRequest cfg)]) =
                    Response 200 (LoginData (Some ''renewed'') ''user-1'' 3600)"
    by (rule rejecting_login) simp
  have auth: "authenticate (rejecting k final) cfg now (Suc (Suc n)) ?s1 = Some (True, ?s2)"
    by (rule authenticate_success [of "rejecting k final" ?s1 cfg 200 "Some ''renewed''"
          "''user-1''" 3600 now n, OF loginrep]) (simp_all add: truthy_def)
  have step: "request (rejecting k final) cfg now fuel s rq =
                request (rejecting k final) cfg now (Suc (Suc n)) ?s2 ?rq"
    unfolding fuel
      request_unauthorized [of "rejecting k final" s rq NoData cfg now "Suc (Suc n)",
        OF rep Suc.prems(1)] auth
    by simp
  have "\<exists>s'. request (rejecting k final) cfg now (Suc (Suc n)) ?s2 ?rq = Some (settle final, s') \<and>
              loginCount (sent s') = loginCount (sent ?s2) + m \<and>
              callCount (sent s') = k + 1"
    using Suc.prems n by (intro Suc.IH) (simp_all add: truthy_def)
  then show ?case unfolding step using Suc.prems by (simp)
qed

text \<open>
  An upstream that answers 401 to every request other than a login never lets a request
  of a client holding a token settle: whatever the fuel, the result is \<open>None\<close>. Nothing
  is assumed about the answers to logins, so this covers an upstream that rejects them too.
\<close>

lemma interceptor_never_settles:
  assumes "\<And>w q. \<not> isLogin q \<Longrightarrow> \<exists>d. srv (w @ [q]) = Response 401 d"
  shows "truthy (accessToken s) \<Longrightarrow> \<not> isLogin rq \<Longrightarrow> request srv cfg now fuel s rq = None"
proof (induction fuel arbitrary: s rq)
  case 0
  show ?case by (simp add: request.simps)
next
  case (Suc fuel)
  let ?s1 = "s\<lparr>sent := sent s @ [stamp s rq]\<rparr>"
  obtain d where rep: "srv (sent s @ [stamp s rq]) = Response 401 d"
    using assms [of "stamp s rq" "sent s"] Suc.prems by auto
  have unfold: "request srv cfg now (Suc fuel) s rq =
           (case authenticate srv cfg now fuel ?s1 of
              None \<Rightarrow> None
            | Some (refreshed, s2) \<Rightarrow>
                request srv cfg now fuel s2 (rq\<lparr>authorization := Some (bearer (accessToken s2))\<rparr>))"
    using request_unauthorized [of srv s rq d cfg now fuel] rep Suc.prems by simp
  show ?case
  proof (cases "authenticate srv cfg now fuel ?s1")
    case None
    then show ?thesis unfolding unfold by simp
  next
    case (Some res)
    obtain b s2 where res: "res = (b, s2)" by (cases res)
    have "truthy (accessToken ?s1)" using Suc.prems by simp
    then have "truthy (accessToken s2)"
      using token_kept [of srv cfg now fuel] Some res by blast
    then have "request srv cfg now fuel s2 (rq\<lparr>authorization := Some (bearer (accessToken s2))\<rparr>) = None"
      using Suc.prems by (intro Suc.IH) simp_all
    then show ?thesis unfolding unfold Some res by simp
  qed
qed

text \<open>
  C1. The interceptor is written to refresh the token and retry the original request, but
  the retry is issued through the same instance and so through the same interceptor, and
  nothing marks a request as already retried. The claim therefore fails of the code at a
  second 401. Evaluated on a service holding a valid token: against an upstream that
  answers 401 to the first two position requests and 200 to the third, getLatestPosition
  performs two re-authentications and two retries (five transmissions) and succeeds, where
  the claim has one re-authentication, one retry and an Auth error; and against an
  upstream that answers 401 to everything the operation never returns, whatever the fuel.
\<close>

theorem interceptor_second_401_reenters:
  "map_option fst
     (getLatestPosition (rejecting 2 (Response 200 (ArrayData []))) account 1000
        (Suc (Suc (Suc (Suc 0)))) signedIn ''T1'') = Some (Inr None) \<and>
   map_option (map url \<circ> sent \<circ> snd)
     (getLatestPosition (rejecting 2 (Response 200 (ArrayData []))) account 1000
        (Suc (Suc (Suc (Suc 0)))) signedIn ''T1'') =
     Some [''/tracker/T1/positions'', ''/auth/login'', ''/tracker/T1/positions'',
           ''/auth/login'', ''/tracker/T1/positions''] \<and>
   (\<forall>fuel. getLatestPosition unauthorized account 1000 fuel signedIn ''T1'' = None)"
proof -
  have query: "positionsQuery ''T1'' (newDate (- 86399000)) (newDate 1000) =
                 Some (positionsRequest ''T1'' (- 86399000) 1000)"
    by (simp add: positionsQuery_def newDate_def toISOString_def)
  have twice: "map_option fst
     (getLatestPosition (rejecting 2 (Response 200 (ArrayData []))) account 1000
        (Suc (Suc (Suc (Suc 0)))) signedIn ''T1'') = Some (Inr None) \<and>
   map_option (map url \<circ> sent \<circ> snd)
     (getLatestPosition (rejecting 2 (Response 200 (ArrayData []))) account 1000
        (Suc (Suc (Suc (Suc 0)))) signedIn ''T1'') =
     Some [''/tracker/T1/positions'', ''/auth/login'', ''/tracker/T1/positions'',
           ''/auth/login'', ''/tracker/T1/positions'']"
    apply (simp add: getLatestPosition_def operation_def ensureAuthenticated_valid signedIn_valid query)
    apply (simp add: request.simps authenticate.simps transmit_def Let_def rejecting_def isLogin_def
        positionsRequest_def loginRequest_def stamp_def signedIn_def truthy_def)
    done
  have never: "getLatestPosition unauthorized account 1000 fuel signedIn ''T1'' = None" for fuel
  proof -
    have "request unauthorized account 1000 fuel signedIn
            (positionsRequest ''T1'' (- 86399000) 1000) = None"
      by (rule interceptor_never_settles)
         (simp_all add: unauthorized_def signedIn_def truthy_def isLogin_def positionsRequest_def)
    then show ?thesis
      by (simp add: getLatestPosition_def operation_def ensureAuthenticated_valid signedIn_valid query)
  qed
  show ?thesis using twice never by blast
qed

subsection \<open>Arguments of the operations\<close>



text \<open>
  A date that does not render stops getPositionHistory inside \<open>try\<close>, before the call of
  the axios instance: on a valid session nothing is sent and the generic error is thrown.
\<close>

lemma getPositionHistory_invalid_date:
  assumes "isSessionValid now s" and "toISOString from = None \<or> toISOString to = None"
  shows "getPositionHistory srv cfg now fuel s trackerId from to =
           Some (Inl ''Failed to fetch position history'', s)"
proof -
  have "positionsQuery trackerId from to = None"
    using assms(2) by (auto simp add: positionsQuery_def split: option.splits)
  then show ?thesis
    unfolding getPositionHistory_def using assms(1) by (intro operation_unbuilt) simp_all
qed







end
